theory Spec2Isabelle
  imports Main "HOL-Library.Char_ord" "HOL-Library.Sublist" "HOL-Library.AList"
begin

section \<open>The daily blog pipeline of \<^verbatim>\<open>scripts/daily_blog.js\<close>\<close>

text \<open>
  A shallow embedding of the script. Text is a \<^typ>\<open>string\<close>: the bytes of the UTF-8
  encoding of the script's JavaScript strings, so every ASCII character is one
  \<^typ>\<open>char\<close> and the three non-ASCII characters of the script's literals are written as
  their bytes. Markup trees are values of a datatype; the calls of the cheerio library are
  functions on such trees. What the script obtains from outside (the random pick, the
  credential, the clock, the image request, the two files, the markup parser, the outcome
  of the git command) is a parameter.
\<close>

subsection \<open>Naming: \<^verbatim>\<open>getSlug\<close> (lines 54-56)\<close>

text \<open>The character class \<^verbatim>\<open>[a-z0-9]\<close> of the first regular expression.\<close>

definition isAlnum :: "char \<Rightarrow> bool" where
  "isAlnum c = ((CHR ''a'' \<le> c \<and> c \<le> CHR ''z'') \<or> (CHR ''0'' \<le> c \<and> c \<le> CHR ''9''))"

text \<open>
  \<^verbatim>\<open>String.prototype.toLowerCase\<close>: the letters \<^verbatim>\<open>A-Z\<close> move to \<^verbatim>\<open>a-z\<close>; every other
  byte stays. (A character outside ASCII is a sequence of bytes above 127, before and
  after lowercasing, with two exceptions that the model leaves out: U+0130 and U+212A,
  whose lowercase forms contain the ASCII letters \<^verbatim>\<open>i\<close> and \<^verbatim>\<open>k\<close>.)
\<close>

definition isUpper :: "char \<Rightarrow> bool" where
  "isUpper c = (CHR ''A'' \<le> c \<and> c \<le> CHR ''Z'')"

definition toLowerChar :: "char \<Rightarrow> char" where
  "toLowerChar c = (if isUpper c then char_of (of_char c + (32::nat)) else c)"

definition toLowerCase :: "string \<Rightarrow> string" where
  "toLowerCase s = map toLowerChar s"

text \<open>
  \<^verbatim>\<open>.replace(/[^a-z0-9]+/g, '-')\<close>: scanning from the left, each match is a maximal run
  of characters outside the class (the quantifier is greedy), and it is replaced by one
  \<^verbatim>\<open>-\<close>.
\<close>

function replaceRuns :: "string \<Rightarrow> string" where
  "replaceRuns [] = []"
| "replaceRuns (c # cs) =
     (if isAlnum c then c # replaceRuns cs
      else CHR ''-'' # replaceRuns (dropWhile (\<lambda>x. \<not> isAlnum x) cs))"
  by pat_completeness auto
termination
  by (relation "measure length") (auto simp: le_imp_less_Suc length_dropWhile_le)

text \<open>
  \<^verbatim>\<open>.replace(/(^-|-$)+/g, '')\<close>: the alternative \<^verbatim>\<open>^-\<close> matches one \<^verbatim>\<open>-\<close> at position 0
  only, the alternative \<^verbatim>\<open>-$\<close> one \<^verbatim>\<open>-\<close> at the last position only. So the matches
  are the first character when it is \<^verbatim>\<open>-\<close>, and the last character when it is \<^verbatim>\<open>-\<close>
  (for the string \<^verbatim>\<open>--\<close> one match covers both); one character goes at each end,
  never more.
\<close>

definition stripLeading :: "string \<Rightarrow> string" where
  "stripLeading s = (case s of [] \<Rightarrow> [] | c # cs \<Rightarrow> if c = CHR ''-'' then cs else s)"

definition stripTrailing :: "string \<Rightarrow> string" where
  "stripTrailing s = (if s \<noteq> [] \<and> last s = CHR ''-'' then butlast s else s)"

definition stripEdges :: "string \<Rightarrow> string" where
  "stripEdges s = stripTrailing (stripLeading s)"

definition getSlug :: "string \<Rightarrow> string" where
  "getSlug t = stripEdges (replaceRuns (toLowerCase t))"

text \<open>The file names of lines 157-158.\<close>

definition imageFilenameOf :: "string \<Rightarrow> string \<Rightarrow> string" where
  "imageFilenameOf slug dateISO = ''blog-'' @ slug @ ''-'' @ dateISO @ ''.jpg''"

definition blogFilenameOf :: "string \<Rightarrow> string \<Rightarrow> string" where
  "blogFilenameOf slug dateISO = dateISO @ ''-'' @ slug @ ''.html''"

subsection \<open>The topic catalogue (lines 15-36, 50-52)\<close>

definition TOPICS :: "string list" where
  "TOPICS =
    [''AI tools for productivity'',
     ''Web development best practices'',
     ''UI/UX design trends 2025'',
     ''Cybersecurity tips for developers'',
     ''Programming career tips'',
     ''Freelancing success strategies'',
     ''Tech startup ecosystem'',
     ''Automation in software development'',
     ''Cloud computing trends'',
     ''Data privacy in the age of AI'',
     ''The Rise of Edge Computing'',
     ''Blockchain beyond Crypto'',
     ''Sustainable Tech & Green Coding'',
     ''Zero Trust Security Architecture'',
     ''Quantum Computing: A Beginner'' @ [CHR 0x27] @ ''s Guide'',
     ''Low-Code/No-Code Development Platforms'',
     ''The Metaverse: Hype vs Reality'',
     ''5G and the Future of Connectivity'',
     ''Ethical AI and Bias in Algorithms'',
     ''DevOps vs MLOps: What'' @ [CHR 0x27] @ ''s the Difference?'']"

text \<open>
  \<^verbatim>\<open>getRandomTopic\<close>: the argument is the index \<^verbatim>\<open>Math.floor(Math.random() * TOPICS.length)\<close>,
  which lies below the length of the catalogue. Reading a JavaScript array out of range
  gives \<^verbatim>\<open>undefined\<close>, which every later use turns into the text \<^verbatim>\<open>undefined\<close>.
\<close>

definition getRandomTopic :: "nat \<Rightarrow> string" where
  "getRandomTopic k = (if k < length TOPICS then TOPICS ! k else ''undefined'')"

subsection \<open>Content synthesis (lines 66-123)\<close>

record generatedContent =
  title :: string
  content :: string
  metaDescription :: string

text \<open>The template literals of \<^verbatim>\<open>generateFallbackContent\<close>, one source line per line.\<close>

definition fallbackTitle :: "string \<Rightarrow> string" where
  "fallbackTitle topic = ''The Future of '' @ topic @ '': What You Need to Know''"

definition fallbackBody :: "string \<Rightarrow> string" where
  \<open>fallbackBody topic =
     ''\<newline>''
     @ ''            <p class="text-gray-700 mb-4">\<newline>''
     @ ''                In the rapidly evolving world of technology, <strong>'' @ topic @ ''</strong> has emerged as a key area of focus for professionals and businesses alike. \<newline>''
     @ ''                As we move further into the digital age, understanding the nuances of this subject is becoming increasingly critical.\<newline>''
     @ ''            </p>\<newline>''
     @ ''            \<newline>''
     @ ''            <h3 class="text-xl font-semibold text-gray-800 mb-3">Why '' @ topic @ '' Matters Now</h3>\<newline>''
     @ ''            <p class="text-gray-700 mb-4">\<newline>''
     @ ''                The shift towards '' @ topic @ '' is not just a trend; it'' @ [CHR 0x27] @ ''s a fundamental change in how we approach problem-solving and efficiency.\<newline>''
     @ ''                Experts predict that this field will continue to grow, offering new opportunities for innovation and optimization.\<newline>''
     @ ''                Whether you are a developer, a designer, or a business owner, staying updated with these changes is essential.\<newline>''
     @ ''            </p>\<newline>''
     @ ''\<newline>''
     @ ''            <h3 class="text-xl font-semibold text-gray-800 mb-3">Key Benefits and Trends</h3>\<newline>''
     @ ''            <ul class="list-disc pl-5 text-gray-700 mb-4 space-y-2">\<newline>''
     @ ''                <li><strong>Efficiency:</strong> Streamlining workflows to save time and resources.</li>\<newline>''
     @ ''                <li><strong>Scalability:</strong> Building systems that can grow with demand.</li>\<newline>''
     @ ''                <li><strong>Innovation:</strong> leveraging new tools to solve old problems in creative ways.</li>\<newline>''
     @ ''            </ul>\<newline>''
     @ ''\<newline>''
     @ ''            <p class="text-gray-700 mb-4">\<newline>''
     @ ''                To stay ahead, it is crucial to adopt a continuous learning mindset. Experiment with new tools, read documentation, and engage with the community.\<newline>''
     @ ''                The future belongs to those who adapt, and '' @ topic @ '' is a great place to start your journey.\<newline>''
     @ ''            </p>\<newline>''
     @ ''\<newline>''
     @ ''            <p class="text-gray-700 mb-4">\<newline>''
     @ ''                Start exploring <strong>'' @ topic @ ''</strong> today and unlock new potentials for your career or business.\<newline>''
     @ ''            </p>\<newline>''
     @ ''        ''\<close>

definition fallbackMeta :: "string \<Rightarrow> string" where
  "fallbackMeta topic =
     ''Discover the latest trends and insights about '' @ topic @ ''. Learn why it matters and how to leverage it for success in the modern tech landscape.''"

definition generateFallbackContent :: "string \<Rightarrow> generatedContent" where
  "generateFallbackContent topic =
     \<lparr>title = fallbackTitle topic, content = fallbackBody topic, metaDescription = fallbackMeta topic\<rparr>"

subsection \<open>Markup trees and the selectors of the script\<close>

text \<open>
  What \<^verbatim>\<open>cheerio.load\<close> returns: a document is the list of the root's children; an
  element has a tag name, its attributes in order, and its children.
\<close>

datatype node =
    Element string "(string \<times> string) list" "node list"
  | Text string
  | Comment string

type_synonym document = "node list"

fun childNodes :: "node \<Rightarrow> node list" where
  "childNodes (Element t a cs) = cs"
| "childNodes n = []"

fun isElement :: "node \<Rightarrow> bool" where
  "isElement (Element t a cs) = True"
| "isElement n = False"

fun isTag :: "string \<Rightarrow> node \<Rightarrow> bool" where
  "isTag name (Element t a cs) = (t = name)"
| "isTag name n = False"

text \<open>An attribute selector \<^verbatim>\<open>[k="v"]\<close>.\<close>

fun hasAttr :: "string \<Rightarrow> string \<Rightarrow> node \<Rightarrow> bool" where
  "hasAttr k v (Element t a cs) = (map_of a k = Some v)"
| "hasAttr k v n = False"

text \<open>A class selector \<^verbatim>\<open>.c\<close>: \<^verbatim>\<open>c\<close> is one of the words of the \<^verbatim>\<open>class\<close>
  attribute, which the selector engine separates at the white space of the regular
  expression class \<^verbatim>\<open>\s\<close> (here its ASCII characters).\<close>

definition isSpace :: "char \<Rightarrow> bool" where
  "isSpace c =
     (c \<in> set [CHR '' '', CHR 0x09, CHR ''\<newline>'', CHR 0x0B, CHR 0x0C, CHR 0x0D])"

function tokens :: "string \<Rightarrow> string list" where
  "tokens [] = []"
| "tokens (c # cs) =
     (if isSpace c then tokens cs
      else (c # takeWhile (\<lambda>x. \<not> isSpace x) cs) # tokens (dropWhile (\<lambda>x. \<not> isSpace x) cs))"
  by pat_completeness auto
termination
  by (relation "measure length") (auto simp: le_imp_less_Suc length_dropWhile_le)

fun classList :: "node \<Rightarrow> string list" where
  "classList (Element t a cs) = (case map_of a ''class'' of None \<Rightarrow> [] | Some v \<Rightarrow> tokens v)"
| "classList n = []"

definition hasClass :: "string \<Rightarrow> node \<Rightarrow> bool" where
  "hasClass c n = (c \<in> set (classList n))"

text \<open>The selectors of lines 172-195 and 254.\<close>

definition isCoverImg :: "node \<Rightarrow> bool" where
  "isCoverImg n = (isTag ''img'' n \<and> hasAttr ''alt'' ''Blog Cover'' n)"

definition isContentImg :: "node \<Rightarrow> bool" where
  "isContentImg n = (isTag ''img'' n \<and> hasAttr ''alt'' ''AI Integration Blog'' n)"

definition isBlogsLink :: "node \<Rightarrow> bool" where
  "isBlogsLink n = (isTag ''a'' n \<and> hasAttr ''href'' ''blogs.html'' n)"

definition isContentSection :: "node \<Rightarrow> bool" where
  "isContentSection n =
     (isTag ''section'' n \<and>
      list_all (\<lambda>c. hasClass c n)
        [''max-w-4xl'', ''mx-auto'', ''px-6'', ''py-12'', ''bg-white'', ''rounded-xl'', ''shadow''])"

definition isBylineP :: "node \<Rightarrow> bool" where
  "isBylineP n = (isTag ''p'' n \<and> hasClass ''text-gray-400'' n)"

definition isGrid :: "node \<Rightarrow> bool" where
  "isGrid n = (isElement n \<and> list_all (\<lambda>c. hasClass c n) [''grid'', ''md:grid-cols-3'', ''gap-10''])"

subsection \<open>The cheerio calls, as functions on trees\<close>

text \<open>\<^verbatim>\<open>$(selector)\<close>: the matching elements, in document order.\<close>

fun select :: "(node \<Rightarrow> bool) \<Rightarrow> node \<Rightarrow> node list" where
  "select P (Element t a cs) =
     (if P (Element t a cs) then [Element t a cs] else []) @ concat (map (select P) cs)"
| "select P n = []"

definition selectAll :: "(node \<Rightarrow> bool) \<Rightarrow> document \<Rightarrow> node list" where
  "selectAll P d = concat (map (select P) d)"

text \<open>The matching elements that lie in no other matching element.\<close>

fun topmost :: "(node \<Rightarrow> bool) \<Rightarrow> node \<Rightarrow> node list" where
  "topmost P (Element t a cs) =
     (if P (Element t a cs) then [Element t a cs] else concat (map (topmost P) cs))"
| "topmost P n = []"

definition topmostAll :: "(node \<Rightarrow> bool) \<Rightarrow> document \<Rightarrow> node list" where
  "topmostAll P d = concat (map (topmost P) d)"

fun setChildren :: "node list \<Rightarrow> node \<Rightarrow> node" where
  "setChildren ns (Element t a cs) = Element t a ns"
| "setChildren ns n = n"

fun setAttrib :: "string \<Rightarrow> string \<Rightarrow> node \<Rightarrow> node" where
  "setAttrib k v (Element t a cs) = Element t (AList.update k v a) cs"
| "setAttrib k v n = n"

fun prependChildren :: "node list \<Rightarrow> node \<Rightarrow> node" where
  "prependChildren ns (Element t a cs) = Element t a (ns @ cs)"
| "prependChildren ns n = n"

text \<open>
  A call that replaces the children of every selected element (\<^verbatim>\<open>text\<close>, \<^verbatim>\<open>html\<close>,
  \<^verbatim>\<open>empty\<close> followed by \<^verbatim>\<open>append\<close>): what a selected element held before is
  detached from the document, so only the outermost selected elements show in the result.
\<close>

fun updTop :: "(node \<Rightarrow> bool) \<Rightarrow> (node \<Rightarrow> node) \<Rightarrow> node \<Rightarrow> node" where
  "updTop P f (Element t a cs) =
     (if P (Element t a cs) then f (Element t a cs) else Element t a (map (updTop P f) cs))"
| "updTop P f n = n"

text \<open>
  A call that keeps the children of the selected elements (\<^verbatim>\<open>attr\<close>, \<^verbatim>\<open>prepend\<close>): the
  selection is made on the document as it was, and every selected element is changed,
  also one inside another.
\<close>

fun updAll :: "(node \<Rightarrow> bool) \<Rightarrow> (node \<Rightarrow> node) \<Rightarrow> node \<Rightarrow> node" where
  "updAll P f (Element t a cs) =
     (if P (Element t a cs) then f (Element t a (map (updAll P f) cs))
      else Element t a (map (updAll P f) cs))"
| "updAll P f n = n"

definition setText :: "(node \<Rightarrow> bool) \<Rightarrow> string \<Rightarrow> document \<Rightarrow> document" where
  "setText P s d = map (updTop P (setChildren [Text s])) d"

definition setAttr :: "(node \<Rightarrow> bool) \<Rightarrow> string \<Rightarrow> string \<Rightarrow> document \<Rightarrow> document" where
  "setAttr P k v d = map (updAll P (setAttrib k v)) d"

definition prepend :: "(node \<Rightarrow> bool) \<Rightarrow> node list \<Rightarrow> document \<Rightarrow> document" where
  "prepend P frag d = map (updAll P (prependChildren frag)) d"

text \<open>\<^verbatim>\<open>$(selector).first().text(s)\<close>: the first match in document order only;
  \<^const>\<open>None\<close> when nothing matches.\<close>

fun updFirst :: "(node \<Rightarrow> bool) \<Rightarrow> (node \<Rightarrow> node) \<Rightarrow> node list \<Rightarrow> node list option" where
  "updFirst P f [] = None"
| "updFirst P f (Element t a cs # ns) =
     (if P (Element t a cs) then Some (f (Element t a cs) # ns)
      else case updFirst P f cs of
             Some cs' \<Rightarrow> Some (Element t a cs' # ns)
           | None \<Rightarrow> map_option ((#) (Element t a cs)) (updFirst P f ns))"
| "updFirst P f (n # ns) = map_option ((#) n) (updFirst P f ns)"

definition setTextFirst :: "(node \<Rightarrow> bool) \<Rightarrow> string \<Rightarrow> document \<Rightarrow> document" where
  "setTextFirst P s d = (case updFirst P (setChildren [Text s]) d of None \<Rightarrow> d | Some d' \<Rightarrow> d')"

text \<open>
  Taking the first match out of a forest, as \<^verbatim>\<open>append\<close> does with a node that has a
  parent: the node, and the forest without it.
\<close>

fun takeFirst :: "(node \<Rightarrow> bool) \<Rightarrow> node list \<Rightarrow> (node \<times> node list) option" where
  "takeFirst P [] = None"
| "takeFirst P (Element t a cs # ns) =
     (if P (Element t a cs) then Some (Element t a cs, ns)
      else case takeFirst P cs of
             Some (m, cs') \<Rightarrow> Some (m, Element t a cs' # ns)
           | None \<Rightarrow> map_option (\<lambda>(m, ns'). (m, Element t a cs # ns')) (takeFirst P ns))"
| "takeFirst P (n # ns) = map_option (\<lambda>(m, ns'). (m, n # ns')) (takeFirst P ns)"

subsection \<open>Rendering the post (lines 168-228)\<close>

text \<open>
  Line 174, the breadcrumb:
  \<^verbatim>\<open>$('.text-blue-500 + span').parent().next().find('a[href="blogs.html"]').parent().html(h)\<close>.
  The first selection holds the \<^verbatim>\<open>span\<close> elements whose previous element sibling has
  the class; \<open>hasCrumbMarker\<close> holds of their parents (the document root is no
  parent for \<^verbatim>\<open>parent()\<close>), \<^verbatim>\<open>next()\<close> moves to the next element sibling of each,
  \<^verbatim>\<open>find\<close> to the matching links below those, and \<^verbatim>\<open>parent()\<close> to the elements with
  such a link as a child. Their children are replaced by the parsed markup \<open>h\<close>.
\<close>

fun adjacent :: "(node \<Rightarrow> bool) \<Rightarrow> (node \<Rightarrow> bool) \<Rightarrow> node list \<Rightarrow> bool" where
  "adjacent A B (x # y # ys) = ((A x \<and> B y) \<or> adjacent A B (y # ys))"
| "adjacent A B ns = False"

definition hasCrumbMarker :: "node \<Rightarrow> bool" where
  "hasCrumbMarker n =
     adjacent (hasClass ''text-blue-500'') (isTag ''span'') (filter isElement (childNodes n))"

text \<open>
  \<open>inside\<close>: the node is, or lies in, the next element sibling of an element with the
  marker. \<open>prev\<close>: the previous element sibling has the marker.
\<close>

fun crumbNode :: "node list \<Rightarrow> bool \<Rightarrow> node \<Rightarrow> node"
  and crumbList :: "node list \<Rightarrow> bool \<Rightarrow> bool \<Rightarrow> node list \<Rightarrow> node list" where
  "crumbNode h inside (Element t a cs) =
     (if inside \<and> list_ex isBlogsLink cs then Element t a h
      else Element t a (crumbList h inside False cs))"
| "crumbNode h inside (Text s) = Text s"
| "crumbNode h inside (Comment s) = Comment s"
| "crumbList h inside prev [] = []"
| "crumbList h inside prev (c # cs) =
     (if isElement c
      then crumbNode h (inside \<or> prev) c # crumbList h inside (hasCrumbMarker c) cs
      else c # crumbList h inside prev cs)"

definition setBreadcrumb :: "node list \<Rightarrow> document \<Rightarrow> document" where
  "setBreadcrumb h d = crumbList h False False d"

definition breadcrumbHtml :: "string \<Rightarrow> string" where
  \<open>breadcrumbHtml t =
     ''<a href="index.html" class="hover:text-blue-400">Home</a> <span class="mx-2 text-blue-400">></span> <a href="blogs.html" class="hover:text-blue-400">Blogs</a> <span class="mx-2 text-blue-400">></span> <span class="text-gray-200">'' @ t @ ''</span>''\<close>

text \<open>
  Lines 172-182. \<open>parse\<close> is cheerio's parser of a markup fragment, \<open>b\<close> the content,
  \<open>img\<close> the image file name.
\<close>

definition updateAnchors ::
  "(string \<Rightarrow> node list) \<Rightarrow> generatedContent \<Rightarrow> string \<Rightarrow> document \<Rightarrow> document" where
  "updateAnchors parse b img d =
     (let d1 = setText (isTag ''title'') (title b @ '' - Nexora Technologies'') d;
          d2 = setText (isTag ''h1'') (title b) d1;
          d3 = setBreadcrumb (parse (breadcrumbHtml (title b))) d2;
          d4 = setAttr isCoverImg ''src'' (''./'' @ img) d3;
          d5 = setTextFirst (isTag ''h2'') (title b) d4
      in setAttr isContentImg ''src'' (''./'' @ img) d5)"

text \<open>
  Lines 190-228. The sections are selected; \<open>heroImg\<close> is the first \<^verbatim>\<open>img\<close> below them
  and \<open>mainTitle\<close> the first \<^verbatim>\<open>h2\<close>. The sections are emptied, then \<^verbatim>\<open>append\<close> moves
  the image in (out of the heading, when it stood there), then the heading as it is by
  then, then the parsed body, then the date paragraph. The model takes an \<^verbatim>\<open>img\<close>
  element to have no \<^verbatim>\<open>h2\<close> inside (the parser gives an \<^verbatim>\<open>img\<close> no children), and
  the selected sections not to lie in one another's heading.

  The date paragraph is the parse of
  \<^verbatim>\<open><p class="text-gray-400 text-sm mb-6">${dateDisplay}</p>\<close>, where \<^verbatim>\<open>dateDisplay\<close> is a
  date such as \<^verbatim>\<open>Aug 10, 2024\<close> and holds no markup.
\<close>

definition dateParagraph :: "string \<Rightarrow> node" where
  "dateParagraph disp = Element ''p'' [(''class'', ''text-gray-400 text-sm mb-6'')] [Text disp]"

definition bylineText :: "string \<Rightarrow> string" where
  "bylineText disp = disp @ '' '' @ [CHR 0xE2, CHR 0x80, CHR 0xA2] @ '' By AutoBlog Bot''"

definition sectionForest :: "document \<Rightarrow> node list" where
  "sectionForest d = concat (map childNodes (topmostAll isContentSection d))"

definition heroImg :: "document \<Rightarrow> node list" where
  "heroImg d = (case takeFirst (isTag ''img'') (sectionForest d) of None \<Rightarrow> [] | Some (i, r) \<Rightarrow> [i])"

definition mainTitle :: "document \<Rightarrow> node list" where
  "mainTitle d =
     take 1 (selectAll (isTag ''h2'')
       (case takeFirst (isTag ''img'') (sectionForest d) of None \<Rightarrow> sectionForest d | Some (i, r) \<Rightarrow> r))"

text \<open>The children of every section after lines 220-228, for the parsed body \<open>body\<close>.\<close>

definition sectionChildren :: "node list \<Rightarrow> string \<Rightarrow> document \<Rightarrow> node list" where
  "sectionChildren body disp d =
     setText isBylineP (bylineText disp) (heroImg d @ mainTitle d @ body @ [dateParagraph disp])"

definition replaceContent :: "node list \<Rightarrow> string \<Rightarrow> document \<Rightarrow> document" where
  "replaceContent body disp d =
     map (updTop isContentSection (setChildren (sectionChildren body disp d))) d"

definition renderPost ::
  "(string \<Rightarrow> node list) \<Rightarrow> generatedContent \<Rightarrow> string \<Rightarrow> string \<Rightarrow> document \<Rightarrow> document" where
  "renderPost parse b img disp d =
     replaceContent (parse (content b)) disp (updateAnchors parse b img d)"

subsection \<open>Effects and errors\<close>

text \<open>
  The effects of a run that outlast it, in order: a line appended to the error log
  (\<^verbatim>\<open>logError\<close>, without its time stamp), the image file streamed to disk, a document
  written with \<^verbatim>\<open>fs.writeFileSync\<close> (path below the repository root; the tree that is
  serialised), and the shell command given to \<^verbatim>\<open>exec\<close>. Console output is not recorded.
  A computation yields its effects and either the message of the error it throws
  (\<^const>\<open>Inl\<close>) or its value.
\<close>

datatype event =
    LogError string
  | WriteImage string
  | WriteFile string document
  | Exec string

type_synonym 'a js = "event list \<times> (string + 'a)"

definition ret :: "'a \<Rightarrow> 'a js" where
  "ret v = ([], Inr v)"

definition throw :: "string \<Rightarrow> 'a js" where
  "throw m = ([], Inl m)"

definition emit :: "event \<Rightarrow> unit js" where
  "emit e = ([e], Inr ())"

definition bind :: "'a js \<Rightarrow> ('a \<Rightarrow> 'b js) \<Rightarrow> 'b js" where
  "bind m f =
     (case m of
        (ev, Inl e) \<Rightarrow> (ev, Inl e)
      | (ev, Inr v) \<Rightarrow> (case f v of (ev', r) \<Rightarrow> (ev @ ev', r)))"

text \<open>\<^verbatim>\<open>try { m } catch (e) { h(e.message) }\<close>\<close>

definition tryCatch :: "'a js \<Rightarrow> (string \<Rightarrow> 'a js) \<Rightarrow> 'a js" where
  "tryCatch m h =
     (case m of
        (ev, Inl e) \<Rightarrow> (case h e of (ev', r) \<Rightarrow> (ev @ ev', r))
      | (ev, Inr v) \<Rightarrow> (ev, Inr v))"

definition logError :: "string \<Rightarrow> unit js" where
  "logError message = emit (LogError message)"

text \<open>
  \<^verbatim>\<open>generateContent\<close> (lines 103-123). The credential is the environment variable, absent
  or a string; \<^verbatim>\<open>!apiKey\<close> holds of an absent and of an empty one. The \<^verbatim>\<open>try\<close> block
  holds no call of the service: it returns the fallback content.
\<close>

definition openAIPlaceholder :: "string \<Rightarrow> generatedContent js" where
  "openAIPlaceholder topic = ret (generateFallbackContent topic)"

definition onOpenAIError :: "string \<Rightarrow> string \<Rightarrow> generatedContent js" where
  "onOpenAIError topic message =
     bind (logError (''OpenAI API failed: '' @ message @ ''. Using fallback.''))
       (\<lambda>_. ret (generateFallbackContent topic))"

definition generateContent :: "string option \<Rightarrow> string \<Rightarrow> generatedContent js" where
  "generateContent key topic =
     (if key = None \<or> key = Some [] then ret (generateFallbackContent topic)
      else tryCatch (openAIPlaceholder topic) (onOpenAIError topic))"

text \<open>
  \<^verbatim>\<open>downloadImage\<close> (lines 125-146). The outcome of the request (its address is built
  from the topic) is a parameter: it succeeds and the stream is written to the file, or
  \<^verbatim>\<open>axios\<close> throws (caught, logged and thrown again), or the writer reports an error
  (the promise is rejected, outside the \<^verbatim>\<open>try\<close>; what the file then holds is not
  recorded).
\<close>

datatype fetchResult = FetchOk | AxiosFail string | WriterFail string

fun downloadImage :: "fetchResult \<Rightarrow> string \<Rightarrow> string \<Rightarrow> unit js" where
  "downloadImage FetchOk topic filename = emit (WriteImage filename)"
| "downloadImage (AxiosFail m) topic filename =
     bind (logError (''Image download failed: '' @ m)) (\<lambda>_. throw m)"
| "downloadImage (WriterFail m) topic filename = throw m"

subsection \<open>The index (lines 233-261)\<close>

definition newCardHtml :: "generatedContent \<Rightarrow> string \<Rightarrow> string \<Rightarrow> string \<Rightarrow> string" where
  \<open>newCardHtml b img post disp =
     ''\<newline>''
     @ ''            <!-- BLOG CARD -->\<newline>''
     @ ''            <div class="bg-white rounded-lg shadow hover:scale-105 transition overflow-hidden">\<newline>''
     @ ''                <img src="./'' @ img @ ''" class="w-full h-48 object-cover">\<newline>''
     @ ''                <div class="p-6">\<newline>''
     @ ''                    <h4 class="text-xl font-semibold mb-2">'' @ title b @ ''</h4>\<newline>''
     @ ''                    <p class="text-gray-600 text-sm mb-4">\<newline>''
     @ ''                        '' @ metaDescription b @ ''\<newline>''
     @ ''                    </p>\<newline>''
     @ ''                    <p class="text-gray-400 text-xs mb-2">'' @ disp @ ''</p>\<newline>''
     @ ''                    <a href="./'' @ post @ ''" class="text-blue-600 hover:underline">Read More '' @ [CHR 0xE2, CHR 0x86, CHR 0x92] @ ''</a>\<newline>''
     @ ''                </div>\<newline>''
     @ ''            </div>\<newline>''
     @ ''        ''\<close>

text \<open>Lines 254-259: \<open>frag\<close> is the parsed card.\<close>

definition insertEntry :: "node list \<Rightarrow> document \<Rightarrow> document js" where
  "insertEntry frag d =
     (if selectAll isGrid d \<noteq> [] then ret (prepend isGrid frag d)
      else bind (logError ''Could not find blog grid container in blogs.html'') (\<lambda>_. ret d))"

subsection \<open>The run (lines 148-293)\<close>

record env =
  pick :: nat
  apiKey :: "string option"
  dateISO :: string
  dateDisplay :: string
  imageFetch :: fetchResult
  templateFile :: "string + document"
  indexFile :: "string + document"
  parseHTML :: "string \<Rightarrow> node list"
  gitResult :: "string option"

text \<open>\<^verbatim>\<open>fs.readFileSync\<close> followed by \<^verbatim>\<open>cheerio.load\<close>: the parsed file, or the message
  of the error thrown when the file cannot be read.\<close>

definition readDocument :: "string + document \<Rightarrow> document js" where
  "readDocument f = (case f of Inl m \<Rightarrow> throw m | Inr d \<Rightarrow> ret d)"

definition commitMsg :: "string \<Rightarrow> string" where
  "commitMsg t = ''Daily Auto Blog Added '' @ [CHR 0xE2, CHR 0x80, CHR 0x93] @ '' '' @ t"

definition gitCommand :: "string \<Rightarrow> string" where
  \<open>gitCommand msg = ''git add . && git commit -m "'' @ msg @ ''" && git push''\<close>

text \<open>The callback of \<^verbatim>\<open>exec\<close> (lines 268-285); it runs after the command, which is
  after everything else of the run.\<close>

definition gitCallback :: "string option \<Rightarrow> unit js" where
  "gitCallback r = (case r of None \<Rightarrow> ret () | Some m \<Rightarrow> logError (''Git commit failed: '' @ m))"

definition runBody :: "env \<Rightarrow> unit js" where
  "runBody e =
     (let topic = getRandomTopic (pick e) in
      bind (generateContent (apiKey e) topic) (\<lambda>blogData.
        let slug = getSlug (title blogData);
            imageFilename = imageFilenameOf slug (dateISO e);
            blogFilename = blogFilenameOf slug (dateISO e)
        in
        bind (downloadImage (imageFetch e) topic imageFilename) (\<lambda>_.
        bind (readDocument (templateFile e)) (\<lambda>template.
        bind (emit (WriteFile blogFilename
                (renderPost (parseHTML e) blogData imageFilename (dateDisplay e) template))) (\<lambda>_.
        bind (readDocument (indexFile e)) (\<lambda>index.
        bind (insertEntry
                (parseHTML e (newCardHtml blogData imageFilename blogFilename (dateDisplay e)))
                index) (\<lambda>index'.
        bind (emit (WriteFile ''blogs.html'' index')) (\<lambda>_.
        bind (emit (Exec (gitCommand (commitMsg (title blogData))))) (\<lambda>_.
        gitCallback (gitResult e))))))))))"

text \<open>The \<^verbatim>\<open>catch\<close> of lines 287-290 logs the message of whatever the body threw.\<close>

definition run :: "env \<Rightarrow> unit js" where
  "run e = tryCatch (runBody e) logError"

subsection \<open>Notions used to state the properties\<close>





text \<open>The events that are lines of the error log.\<close>

fun isLogError :: "event \<Rightarrow> bool" where
  "isLogError (LogError m) = True"
| "isLogError ev = False"

text \<open>A template: fixed segments, with the same text put between each two neighbours.\<close>

fun interpolate :: "string list \<Rightarrow> string \<Rightarrow> string" where
  "interpolate [] x = []"
| "interpolate [s] x = s"
| "interpolate (s # ss) x = s @ x @ interpolate ss x"

text \<open>The fixed text of the fallback body, cut at the five places where the topic goes.\<close>

definition bodySkeleton :: "string list" where
  \<open>bodySkeleton =
    [''\<newline>''
        @ ''            <p class="text-gray-700 mb-4">\<newline>''
        @ ''                In the rapidly evolving world of technology, <strong>'',

     ''</strong> has emerged as a key area of focus for professionals and businesses alike. \<newline>''
        @ ''                As we move further into the digital age, understanding the nuances of this subject is becoming increasingly critical.\<newline>''
        @ ''            </p>\<newline>''
        @ ''            \<newline>''
        @ ''            <h3 class="text-xl font-semibold text-gray-800 mb-3">Why '',

     '' Matters Now</h3>\<newline>''
        @ ''            <p class="text-gray-700 mb-4">\<newline>''
        @ ''                The shift towards '',

     '' is not just a trend; it'' @ [CHR 0x27] @ ''s a fundamental change in how we approach problem-solving and efficiency.\<newline>''
        @ ''                Experts predict that this field will continue to grow, offering new opportunities for innovation and optimization.\<newline>''
        @ ''                Whether you are a developer, a designer, or a business owner, staying updated with these changes is essential.\<newline>''
        @ ''            </p>\<newline>''
        @ ''\<newline>''
        @ ''            <h3 class="text-xl font-semibold text-gray-800 mb-3">Key Benefits and Trends</h3>\<newline>''
        @ ''            <ul class="list-disc pl-5 text-gray-700 mb-4 space-y-2">\<newline>''
        @ ''                <li><strong>Efficiency:</strong> Streamlining workflows to save time and resources.</li>\<newline>''
        @ ''                <li><strong>Scalability:</strong> Building systems that can grow with demand.</li>\<newline>''
        @ ''                <li><strong>Innovation:</strong> leveraging new tools to solve old problems in creative ways.</li>\<newline>''
        @ ''            </ul>\<newline>''
        @ ''\<newline>''
        @ ''            <p class="text-gray-700 mb-4">\<newline>''
        @ ''                To stay ahead, it is crucial to adopt a continuous learning mindset. Experiment with new tools, read documentation, and engage with the community.\<newline>''
        @ ''                The future belongs to those who adapt, and '',

     '' is a great place to start your journey.\<newline>''
        @ ''            </p>\<newline>''
        @ ''\<newline>''
        @ ''            <p class="text-gray-700 mb-4">\<newline>''
        @ ''                Start exploring <strong>'',

     ''</strong> today and unlock new potentials for your career or business.\<newline>''
        @ ''            </p>\<newline>''
        @ ''        '']\<close>

text \<open>What a run computes before its first effect: the topic, the content and the names.\<close>

definition runTopic :: "env \<Rightarrow> string" where
  "runTopic e = getRandomTopic (pick e)"

definition runContent :: "env \<Rightarrow> generatedContent" where
  "runContent e = generateFallbackContent (runTopic e)"

definition runImageFilename :: "env \<Rightarrow> string" where
  "runImageFilename e = imageFilenameOf (getSlug (title (runContent e))) (dateISO e)"

definition runBlogFilename :: "env \<Rightarrow> string" where
  "runBlogFilename e = blogFilenameOf (getSlug (title (runContent e))) (dateISO e)"

text \<open>The post a run renders from the template \<open>t\<close>, and the card it parses.\<close>

definition runPost :: "env \<Rightarrow> document \<Rightarrow> document" where
  "runPost e t = renderPost (parseHTML e) (runContent e) (runImageFilename e) (dateDisplay e) t"

definition runCard :: "env \<Rightarrow> node list" where
  "runCard e =
     parseHTML e (newCardHtml (runContent e) (runImageFilename e) (runBlogFilename e) (dateDisplay e))"

definition runGitCommand :: "env \<Rightarrow> string" where
  "runGitCommand e = gitCommand (commitMsg (title (runContent e)))"

subsection \<open>Example inputs\<close>

text \<open>
  A template with every anchor of lines 172-195 but the breadcrumb, and a content section
  of an image, a heading, a paragraph and a date line.
\<close>

definition demoTemplate :: document where
  "demoTemplate =
    [Element ''html'' []
      [Element ''head'' [] [Element ''title'' [] [Text ''AI Integration'']],
       Element ''body'' []
        [Element ''h1'' [] [Text ''AI Integration''],
         Element ''img'' [(''src'', ''./cover.jpg''), (''alt'', ''Blog Cover'')] [],
         Element ''section''
           [(''class'', ''max-w-4xl mx-auto px-6 py-12 bg-white rounded-xl shadow'')]
           [Element ''img'' [(''src'', ''./ai.jpg''), (''alt'', ''AI Integration Blog'')] [],
            Element ''h2'' [(''class'', ''text-2xl font-bold'')] [Text ''AI Integration''],
            Element ''p'' [(''class'', ''text-gray-700 mb-4'')] [Text ''Old text.''],
            Element ''p'' [(''class'', ''text-gray-400 text-sm mb-6'')] [Text ''Aug 10, 2024'']]]]]"



definition demoParse :: "string \<Rightarrow> node list" where
  "demoParse s =
     (if s = ''<p>a</p><p>b</p>''
      then [Element ''p'' [] [Text ''a''], Element ''p'' [] [Text ''b'']]
      else [Text s])"

text \<open>An index whose listing container is empty, and two entries.\<close>

definition demoGrid :: node where
  "demoGrid = Element ''div'' [(''class'', ''grid md:grid-cols-3 gap-10'')] []"

definition demoIndex :: document where
  "demoIndex = [Element ''html'' [] [Element ''body'' [] [Element ''h1'' [] [Text ''Blogs''], demoGrid]]]"



text \<open>
  Runs on 2025-03-01 with the fifteenth topic of the catalogue and no credential: one
  where everything outside succeeds, one whose template has no anchor, one whose index
  has no listing container, one whose image request fails.
\<close>

definition demoEnv :: env where
  "demoEnv =
    \<lparr>pick = 14, apiKey = None, dateISO = ''2025-03-01'', dateDisplay = ''Mar 01, 2025'',
     imageFetch = FetchOk, templateFile = Inr demoTemplate, indexFile = Inr demoIndex,
     parseHTML = demoParse, gitResult = None\<rparr>"



definition offlineEnv :: env where
  "offlineEnv = demoEnv\<lparr>imageFetch := AxiosFail ''getaddrinfo ENOTFOUND image.pollinations.ai''\<rparr>"

section \<open>Properties\<close>

subsection \<open>The slug\<close>




































subsection \<open>Content synthesis\<close>

lemma fallbackBody_skeleton: "fallbackBody topic = interpolate bodySkeleton topic"
  by (simp add: fallbackBody_def bodySkeleton_def)

lemma sublist_mid: "sublist x (a @ x @ b)"
  by (auto simp: sublist_def)

lemma sublist_interpolate: "sublist x (interpolate (a # b # ss) x)"
  by (simp add: sublist_mid)

text \<open>
  C7. The fallback content is a function of the topic alone. Its title is
  \<^verbatim>\<open>The Future of {topic}: What You Need to Know\<close>; its body is the fixed skeleton of six
  segments with the topic between each two neighbours; its meta description is a fixed
  sentence around the topic. So the topic is a substring of all three.
\<close>

theorem fallback_deterministic_template:
  "title (generateFallbackContent topic) = ''The Future of '' @ topic @ '': What You Need to Know''
   \<and> content (generateFallbackContent topic) = interpolate bodySkeleton topic
   \<and> length bodySkeleton = 6
   \<and> metaDescription (generateFallbackContent topic) =
       interpolate [''Discover the latest trends and insights about '',
         ''. Learn why it matters and how to leverage it for success in the modern tech landscape.''] topic
   \<and> sublist topic (title (generateFallbackContent topic))
   \<and> sublist topic (content (generateFallbackContent topic))
   \<and> sublist topic (metaDescription (generateFallbackContent topic))"
proof -
  have 1: "title (generateFallbackContent topic) = ''The Future of '' @ topic @ '': What You Need to Know''"
    by (simp add: generateFallbackContent_def fallbackTitle_def)
  have 2: "content (generateFallbackContent topic) = interpolate bodySkeleton topic"
    by (simp add: generateFallbackContent_def fallbackBody_skeleton)
  have 3: "length bodySkeleton = 6"
    by (simp add: bodySkeleton_def)
  have 4: "metaDescription (generateFallbackContent topic) =
       interpolate [''Discover the latest trends and insights about '',
         ''. Learn why it matters and how to leverage it for success in the modern tech landscape.''] topic"
    by (simp add: generateFallbackContent_def fallbackMeta_def)
  have "sublist topic (fallbackTitle topic)"
    unfolding fallbackTitle_def by (rule sublist_mid)
  then have 5: "sublist topic (title (generateFallbackContent topic))"
    by (simp add: generateFallbackContent_def)
  have "sublist topic (interpolate bodySkeleton topic)"
    unfolding bodySkeleton_def by (rule sublist_interpolate)
  then have 6: "sublist topic (content (generateFallbackContent topic))"
    by (simp only: 2)
  have "sublist topic (fallbackMeta topic)"
    unfolding fallbackMeta_def by (rule sublist_mid)
  then have 7: "sublist topic (metaDescription (generateFallbackContent topic))"
    by (simp add: generateFallbackContent_def)
  from 1 2 3 4 5 6 7 show ?thesis by blast
qed

text \<open>The theorem at the first topic of the catalogue.\<close>

theorem fallback_deterministic_template_witness:
  "title (generateFallbackContent ''AI tools for productivity'') =
     ''The Future of AI tools for productivity: What You Need to Know''
   \<and> sublist ''AI tools for productivity'' (title (generateFallbackContent ''AI tools for productivity''))
   \<and> sublist ''AI tools for productivity'' (content (generateFallbackContent ''AI tools for productivity''))"
proof -
  have "title (generateFallbackContent ''AI tools for productivity'') =
      ''The Future of '' @ ''AI tools for productivity'' @ '': What You Need to Know''"
    and "sublist ''AI tools for productivity'' (title (generateFallbackContent ''AI tools for productivity''))"
    and "sublist ''AI tools for productivity'' (content (generateFallbackContent ''AI tools for productivity''))"
    using fallback_deterministic_template[of "''AI tools for productivity''"] by blast+
  then show ?thesis by simp
qed

lemma generateContent_value: "generateContent key topic = ([], Inr (generateFallbackContent topic))"
  by (simp add: generateContent_def ret_def tryCatch_def openAIPlaceholder_def)

text \<open>
  C8. \<^verbatim>\<open>generateContent\<close> never throws, whatever the credential and the topic: it
  returns the fallback content. Without a credential it logs nothing. The handler of its
  \<^verbatim>\<open>try\<close> block turns any error thrown there into one line of the error log and the
  fallback content, and throws nothing again.
\<close>

theorem generateContent_never_throws:
  "snd (generateContent key topic) = Inr (generateFallbackContent topic)
   \<and> fst (generateContent None topic) = []
   \<and> tryCatch (ev, Inl m) (onOpenAIError topic) =
       (ev @ [LogError (''OpenAI API failed: '' @ m @ ''. Using fallback.'')],
        Inr (generateFallbackContent topic))"
  by (simp add: generateContent_def ret_def tryCatch_def openAIPlaceholder_def onOpenAIError_def
      bind_def logError_def emit_def)

text \<open>
  C10. With or without the credential, \<^verbatim>\<open>generateContent\<close> returns the fallback content
  of the topic and has no effect: the two paths agree, and no service is called.
\<close>

theorem generateContent_is_fallback:
  "generateContent key topic = ret (generateFallbackContent topic)
   \<and> generateContent None topic = generateContent (Some k) topic"
  by (simp add: generateContent_def ret_def tryCatch_def openAIPlaceholder_def)

subsection \<open>The run, case by case\<close>

lemma run_axios_fail:
  "imageFetch e = AxiosFail m \<Longrightarrow>
   run e = ([LogError (''Image download failed: '' @ m), LogError m], Inr ())"
  by (simp add: run_def runBody_def generateContent_value bind_def tryCatch_def logError_def
      emit_def throw_def Let_def)

lemma run_writer_fail:
  "imageFetch e = WriterFail m \<Longrightarrow> run e = ([LogError m], Inr ())"
  by (simp add: run_def runBody_def generateContent_value bind_def tryCatch_def logError_def
      emit_def throw_def Let_def)

lemma run_template_unreadable:
  "imageFetch e = FetchOk \<Longrightarrow> templateFile e = Inl m \<Longrightarrow>
   run e = ([WriteImage (runImageFilename e), LogError m], Inr ())"
  by (simp add: run_def runBody_def generateContent_value bind_def tryCatch_def logError_def
      emit_def throw_def Let_def readDocument_def runImageFilename_def runContent_def runTopic_def)

lemma run_index_unreadable:
  "imageFetch e = FetchOk \<Longrightarrow> templateFile e = Inr t \<Longrightarrow> indexFile e = Inl m \<Longrightarrow>
   run e = ([WriteImage (runImageFilename e), WriteFile (runBlogFilename e) (runPost e t), LogError m], Inr ())"
  by (simp add: run_def runBody_def generateContent_value bind_def tryCatch_def logError_def
      emit_def throw_def ret_def Let_def readDocument_def runImageFilename_def runBlogFilename_def
      runPost_def runContent_def runTopic_def)

lemma gitCallback_value: "snd (gitCallback r) = Inr ()"
  by (cases r) (simp_all add: gitCallback_def ret_def logError_def emit_def)

lemma run_index_readable:
  "imageFetch e = FetchOk \<Longrightarrow> templateFile e = Inr t \<Longrightarrow> indexFile e = Inr d \<Longrightarrow>
   insertEntry (runCard e) d = (ev, Inr d') \<Longrightarrow>
   run e = ([WriteImage (runImageFilename e), WriteFile (runBlogFilename e) (runPost e t)] @ ev @
            [WriteFile ''blogs.html'' d', Exec (runGitCommand e)] @ fst (gitCallback (gitResult e)),
            Inr ())"
  using gitCallback_value[of "gitResult e"]
  by (cases "gitCallback (gitResult e)")
     (simp add: run_def runBody_def generateContent_value bind_def tryCatch_def logError_def
      emit_def throw_def ret_def Let_def readDocument_def runImageFilename_def runBlogFilename_def
      runPost_def runContent_def runTopic_def runCard_def runGitCommand_def)

lemma insertEntry_cases:
  "insertEntry frag d =
    (if selectAll isGrid d \<noteq> [] then ([], Inr (prepend isGrid frag d))
     else ([LogError ''Could not find blog grid container in blogs.html''], Inr d))"
  by (simp add: insertEntry_def ret_def bind_def logError_def emit_def)


lemma quantum_slug:
  "getSlug (fallbackTitle (''Quantum Computing: A Beginner'' @ [CHR 0x27] @ ''s Guide'')) =
    ''the-future-of-quantum-computing-a-beginner-s-guide-what-you-need-to-know''"
  by code_simp

lemma run_prefix:
  "imageFetch e = FetchOk \<Longrightarrow> templateFile e = Inr t \<Longrightarrow>
   take 2 (fst (run e)) = [WriteImage (runImageFilename e), WriteFile (runBlogFilename e) (runPost e t)]"
proof (cases "indexFile e")
  case (Inl m)
  assume "imageFetch e = FetchOk" "templateFile e = Inr t"
  then show ?thesis using run_index_unreadable[of e t m] Inl by simp
next
  case (Inr d)
  assume a: "imageFetch e = FetchOk" "templateFile e = Inr t"
  obtain ev d' where "insertEntry (runCard e) d = (ev, Inr d')"
    by (cases "selectAll isGrid d = []") (auto simp: insertEntry_cases)
  then show ?thesis using run_index_readable[OF a Inr, of ev d'] by simp
qed


text \<open>
  C9. When the image request fails (\<^verbatim>\<open>axios\<close> throws, or the writer reports an error),
  the run ends there: its only effects are lines of the error log, the last of them
  written by the handler at the end of \<^verbatim>\<open>run\<close> with the message of the failure. No
  document is written, and no command is executed.
\<close>

theorem image_failure_aborts:
  assumes "imageFetch e = AxiosFail m \<or> imageFetch e = WriterFail m"
  shows "run e =
    ((if imageFetch e = AxiosFail m then [LogError (''Image download failed: '' @ m)] else [])
       @ [LogError m], Inr ())
    \<and> filter (Not \<circ> isLogError) (fst (run e)) = []"
  using assms run_axios_fail[of e m] run_writer_fail[of e m] by auto

text \<open>The theorem at a run whose request fails.\<close>

theorem image_failure_aborts_witness:
  "run offlineEnv =
     ([LogError ''Image download failed: getaddrinfo ENOTFOUND image.pollinations.ai'',
       LogError ''getaddrinfo ENOTFOUND image.pollinations.ai''], Inr ())"
proof -
  have "imageFetch offlineEnv = AxiosFail ''getaddrinfo ENOTFOUND image.pollinations.ai''"
    by (simp add: offlineEnv_def demoEnv_def)
  then show ?thesis
    using image_failure_aborts[of offlineEnv "''getaddrinfo ENOTFOUND image.pollinations.ai''"]
    by simp
qed

text \<open>
  C6. The post is written to \<^verbatim>\<open>{isoDate}-{slug}.html\<close> and the image to
  \<^verbatim>\<open>blog-{slug}-{isoDate}.jpg\<close>, where the slug is that of the title of the generated
  content, not of the topic; these are the names of the first two effects of a run whose
  image request and template read succeed. For the topic
  \<^verbatim>\<open>Quantum Computing: A Beginner's Guide\<close> on 2025-03-01 they are the two names of
  the claim.
\<close>

theorem derived_filenames:
  "runBlogFilename e = dateISO e @ ''-'' @ getSlug (title (generateFallbackContent (runTopic e))) @ ''.html''
   \<and> runImageFilename e = ''blog-'' @ getSlug (title (generateFallbackContent (runTopic e))) @ ''-'' @ dateISO e @ ''.jpg''
   \<and> (imageFetch e = FetchOk \<and> templateFile e = Inr t \<longrightarrow>
        take 2 (fst (run e)) =
          [WriteImage (runImageFilename e), WriteFile (runBlogFilename e) (runPost e t)])
   \<and> (runTopic e = ''Quantum Computing: A Beginner'' @ [CHR 0x27] @ ''s Guide'' \<and> dateISO e = ''2025-03-01'' \<longrightarrow>
        runBlogFilename e =
          ''2025-03-01-the-future-of-quantum-computing-a-beginner-s-guide-what-you-need-to-know.html''
        \<and> runImageFilename e =
          ''blog-the-future-of-quantum-computing-a-beginner-s-guide-what-you-need-to-know-2025-03-01.jpg'')"
proof -
  have 1: "runBlogFilename e = dateISO e @ ''-'' @ getSlug (title (generateFallbackContent (runTopic e))) @ ''.html''"
    by (simp add: runBlogFilename_def blogFilenameOf_def runContent_def)
  have 2: "runImageFilename e = ''blog-'' @ getSlug (title (generateFallbackContent (runTopic e))) @ ''-'' @ dateISO e @ ''.jpg''"
    by (simp add: runImageFilename_def imageFilenameOf_def runContent_def)
  have q: "title (generateFallbackContent t) = fallbackTitle t" for t
    by (simp add: generateFallbackContent_def)
  show ?thesis
    unfolding 1 2 q using run_prefix[of e t, unfolded 1 2 q] quantum_slug by simp
qed

text \<open>The theorem at the run of the fifteenth topic on 2025-03-01.\<close>

theorem derived_filenames_witness:
  "runBlogFilename demoEnv =
     ''2025-03-01-the-future-of-quantum-computing-a-beginner-s-guide-what-you-need-to-know.html''
   \<and> runImageFilename demoEnv =
     ''blog-the-future-of-quantum-computing-a-beginner-s-guide-what-you-need-to-know-2025-03-01.jpg''
   \<and> take 2 (fst (run demoEnv)) =
       [WriteImage (runImageFilename demoEnv),
        WriteFile (runBlogFilename demoEnv) (runPost demoEnv demoTemplate)]"
proof -
  have a: "runTopic demoEnv = ''Quantum Computing: A Beginner'' @ [CHR 0x27] @ ''s Guide''"
    by code_simp
  have b: "dateISO demoEnv = ''2025-03-01'' \<and> imageFetch demoEnv = FetchOk
      \<and> templateFile demoEnv = Inr demoTemplate"
    by (simp add: demoEnv_def)
  show ?thesis
    using a b derived_filenames[of demoEnv demoTemplate] by blast
qed

subsection \<open>Selections and updates\<close>









lemma hasClass_shallow: "hasClass c (Element t a cs) = hasClass c (Element t a cs')"
  by (simp add: hasClass_def)


lemma isGrid_shallow: "isGrid (Element t a cs) = isGrid (Element t a cs')"
  by (simp add: isGrid_def hasClass_def)
















lemma isGrid_updAll: "isGrid (updAll isGrid (prependChildren frag) n) = isGrid n"
  using isGrid_shallow by (cases n) (auto simp: isGrid_def hasClass_def)



















subsection \<open>The rendered post\<close>







subsection \<open>The index\<close>





end
